theory Spec2Isabelle
  imports Complex_Main "HOL-Library.Char_ord" "HOL-Library.List_Lexorder" "HOL-Library.Sublist"
    "HOL-Library.Multiset"
begin

section \<open>EcoWise backend (src/backend/server.js)\<close>

text \<open>
  A shallow embedding of the Express handlers of \<^verbatim>\<open>server.js\<close> over an in-memory copy of the
  two SQLite tables. Conventions of the embedding:
  \<^item> a JavaScript string is a \<open>string\<close>, one element per code unit, so \<open>length\<close> is
    \<^verbatim>\<open>.length\<close>;
  \<^item> an INTEGER column is an \<open>int\<close>, a REAL column an exact \<open>rat\<close> (rounding of doubles and
    the 64-bit range of SQLite integers are not represented), a nullable column an \<open>option\<close>;
  \<^item> a DATETIME column is the text SQLite stores, compared as SQLite compares text
    (lexicographically by code unit);
  \<^item> the store never fails, apart from the UNIQUE constraint of \<^verbatim>\<open>users.username\<close>, which
    is modelled: the \<^verbatim>\<open>if (err)\<close> branches that answer 500 are not reached;
  \<^item> \<^verbatim>\<open>username\<close> and \<^verbatim>\<open>password\<close> of a request body are absent or strings, the numeric
    fields of a history body are absent, \<^verbatim>\<open>null\<close> or numbers of the column's type.
\<close>

subsection \<open>Tables\<close>

text \<open>Modelled from the spec: the stored password hash. \<^verbatim>\<open>bcrypt\<close> is a dependency that is
  not part of the sources; a hash is symbolic and records the cost, the salt and the
  password it was made from.\<close>

datatype pwhash = Bcrypt nat string string

record user_row =
  u_id :: nat
  u_username :: string
  u_password_hash :: pwhash
  u_created_at :: string

record history_row =
  h_id :: nat
  h_username :: string
  h_filename :: "string option"
  h_processed_at :: string
  eco_points_earned :: "int option"
  items_recycled :: "int option"
  carbon_saved_kg :: "rat option"

text \<open>The two tables, each with the counter AUTOINCREMENT keeps for it.\<close>

record db =
  users :: "user_row list"
  history :: "history_row list"
  users_seq :: nat
  history_seq :: nat

subsection \<open>Tokens and response bodies\<close>

text \<open>Modelled from the spec: the session token. \<^verbatim>\<open>jsonwebtoken\<close> is a dependency that is
  not part of the sources; a token is symbolic, the claim set
  \<^verbatim>\<open>{ id, username, iat, exp }\<close> together with the key that signed it. \<open>iat\<close> and \<open>exp\<close> are
  in seconds.\<close>

record jwt_payload =
  jwt_id :: nat
  jwt_username :: string
  jwt_iat :: nat
  jwt_exp :: nat

datatype jwt = Jwt jwt_payload string

text \<open>A header value or query parameter: characters, with a well-formed token that occurs
  in it standing as one symbol (a serialised token contains no space).\<close>

datatype sym = Chr char | Tok jwt

type_synonym wire = "sym list"

definition str :: "string \<Rightarrow> wire" where
  "str s = map Chr s"

datatype json =
    JNull
  | JNum int
  | JReal rat
  | JStr string
  | JTok jwt
  | JHash pwhash
  | JArr "json list"
  | JObj "(string \<times> json) list"

datatype body = Json json | Csv string

type_synonym response = "nat \<times> body"

definition reply :: "nat \<Rightarrow> json \<Rightarrow> response" where
  "reply code j = (code, Json j)"

definition error_reply :: "nat \<Rightarrow> string \<Rightarrow> response" where
  "error_reply code msg = reply code (JObj [(''error'', JStr msg)])"

fun json_field :: "string \<Rightarrow> response \<Rightarrow> json option" where
  "json_field k (_, Json (JObj kvs)) = map_of kvs k"
| "json_field k _ = None"

subsection \<open>Requests\<close>

text \<open>The headers and query parameters the handlers read; \<open>None\<close> is \<^verbatim>\<open>undefined\<close>. Route
  parameters and the parsed body are passed beside the request.\<close>

record request =
  authorization :: "wire option"
  x_admin_secret :: "wire option"
  q_admin_secret :: "wire option"
  q_limit :: "string option"
  q_offset :: "string option"
  q_search :: "string option"

text \<open>A request with no header and no query parameter.\<close>

definition plain_request :: request where
  "plain_request =
     \<lparr> authorization = None, x_admin_secret = None, q_admin_secret = None,
       q_limit = None, q_offset = None, q_search = None \<rparr>"

subsection \<open>SQL and JavaScript operators the handlers use\<close>

text \<open>\<^verbatim>\<open>SUM\<close> skips NULL and is NULL when no row contributes; \<^verbatim>\<open>COALESCE(x, d)\<close>.\<close>

definition sql_sum :: "('a::comm_monoid_add) option list \<Rightarrow> 'a option" where
  "sql_sum vs = (case List.map_filter (\<lambda>v. v) vs of [] \<Rightarrow> None | ws \<Rightarrow> Some (sum_list ws))"

definition coalesce :: "'a option \<Rightarrow> 'a \<Rightarrow> 'a" where
  "coalesce v d = (case v of None \<Rightarrow> d | Some x \<Rightarrow> x)"

text \<open>\<^verbatim>\<open>ORDER BY k\<close> and \<^verbatim>\<open>ORDER BY k DESC\<close>. SQLite leaves the order of rows with equal keys
  open; the model fixes one.\<close>

definition order_by :: "('a \<Rightarrow> 'k::linorder) \<Rightarrow> 'a list \<Rightarrow> 'a list" where
  "order_by k rows = sort_key k rows"

definition order_by_desc :: "('a \<Rightarrow> 'k::linorder) \<Rightarrow> 'a list \<Rightarrow> 'a list" where
  "order_by_desc k rows = rev (sort_key k rows)"

text \<open>\<^verbatim>\<open>LIMIT n\<close>: a negative \<open>n\<close> is no limit. \<^verbatim>\<open>OFFSET n\<close>: a negative \<open>n\<close> is 0.\<close>

definition sql_limit :: "int \<Rightarrow> 'a list \<Rightarrow> 'a list" where
  "sql_limit n rows = (if n < 0 then rows else take (nat n) rows)"

definition sql_offset :: "int \<Rightarrow> 'a list \<Rightarrow> 'a list" where
  "sql_offset n rows = (if n < 0 then rows else drop (nat n) rows)"

text \<open>\<^verbatim>\<open>db.get\<close> hands the first row of the result to its callback, \<^verbatim>\<open>undefined\<close> when there
  is none.\<close>

fun db_get :: "'a list \<Rightarrow> 'a option" where
  "db_get [] = None"
| "db_get (r # _) = Some r"

text \<open>\<^verbatim>\<open>x || d\<close> on a number \<open>x\<close>: 0 is falsy. \<open>None\<close> is \<^verbatim>\<open>NaN\<close>, which is falsy too.\<close>

definition or_num :: "('a::zero) \<Rightarrow> 'a \<Rightarrow> 'a" where
  "or_num x d = (if x = 0 then d else x)"

definition or_nan :: "int option \<Rightarrow> int \<Rightarrow> int" where
  "or_nan x d = (case x of None \<Rightarrow> d | Some n \<Rightarrow> or_num n d)"

text \<open>\<^verbatim>\<open>!s\<close> on a value that is \<^verbatim>\<open>undefined\<close> or a string.\<close>

fun falsy :: "'a list option \<Rightarrow> bool" where
  "falsy None = True"
| "falsy (Some s) = (s = [])"

subsection \<open>Aggregation read path\<close>

record agg_row =
  eco_points :: int
  sum_items_recycled :: int
  sum_carbon_saved_kg :: rat

text \<open>The select list shared by the profile and the leaderboard queries.\<close>

definition select_sums :: "history_row list \<Rightarrow> agg_row" where
  "select_sums rows =
     \<lparr> eco_points = coalesce (sql_sum (map eco_points_earned rows)) 0,
       sum_items_recycled = coalesce (sql_sum (map items_recycled rows)) 0,
       sum_carbon_saved_kg = coalesce (sql_sum (map carbon_saved_kg rows)) 0 \<rparr>"

definition where_username :: "string \<Rightarrow> history_row list \<Rightarrow> history_row list" where
  "where_username username rows = filter (\<lambda>h. h_username h = username) rows"

text \<open>An aggregate query without GROUP BY has exactly one result row.\<close>

definition getUserAggregates :: "db \<Rightarrow> string \<Rightarrow> agg_row" where
  "getUserAggregates d username =
     (case db_get [select_sums (where_username username (history d))] of
        None \<Rightarrow> \<lparr> eco_points = 0, sum_items_recycled = 0, sum_carbon_saved_kg = 0 \<rparr>
      | Some row \<Rightarrow> row)"

definition where_user :: "string \<Rightarrow> user_row list \<Rightarrow> user_row list" where
  "where_user username rows = filter (\<lambda>u. u_username u = username) rows"

definition handleGetUserProfile :: "db \<Rightarrow> string \<Rightarrow> response" where
  "handleGetUserProfile d username =
     (if username = [] then error_reply 400 ''Missing username''
      else case db_get (where_user username (users d)) of
        None \<Rightarrow> error_reply 404 ''User not found''
      | Some userRow \<Rightarrow>
          (let agg = getUserAggregates d username in
           reply 200 (JObj
             [(''id'', JNum (int (u_id userRow))),
              (''username'', JStr (u_username userRow)),
              (''created_at'', JStr (u_created_at userRow)),
              (''eco_points'', JNum (or_num (eco_points agg) 0)),
              (''items_recycled'', JNum (or_num (sum_items_recycled agg) 0)),
              (''carbon_saved_kg'', JReal (or_num (sum_carbon_saved_kg agg) 0))])))"

subsection \<open>Event log reads\<close>

text \<open>\<^verbatim>\<open>parseInt(v, 10)\<close> on a query or route parameter: leading white space, an optional
  sign, then the longest run of decimal digits; \<^verbatim>\<open>NaN\<close> (here \<open>None\<close>) when there is no digit
  or no parameter.\<close>

definition is_space :: "char \<Rightarrow> bool" where
  "is_space c = (c \<in> set [CHR '' '', CHR 0x09, CHR 0x0A, CHR 0x0B, CHR 0x0C, CHR 0x0D, CHR 0xA0])"

definition is_digit :: "char \<Rightarrow> bool" where
  "is_digit c = (CHR ''0'' \<le> c \<and> c \<le> CHR ''9'')"

definition digits_value :: "string \<Rightarrow> nat" where
  "digits_value z = foldl (\<lambda>a c. 10 * a + (of_char c - 48)) 0 z"

definition parseInt :: "string option \<Rightarrow> int option" where
  "parseInt v =
     (case v of
        None \<Rightarrow> None
      | Some s \<Rightarrow>
          (let t = dropWhile is_space s;
               (neg, u) = (case t of
                    c # r \<Rightarrow> if c = CHR ''-'' then (True, r)
                             else if c = CHR ''+'' then (False, r) else (False, t)
                  | [] \<Rightarrow> (False, t));
               z = takeWhile is_digit u
           in if z = [] then None
              else Some (if neg then - int (digits_value z) else int (digits_value z))))"

definition nullable :: "('a \<Rightarrow> json) \<Rightarrow> 'a option \<Rightarrow> json" where
  "nullable f v = (case v of None \<Rightarrow> JNull | Some x \<Rightarrow> f x)"

text \<open>The columns the history queries select.\<close>

definition history_json :: "history_row \<Rightarrow> json" where
  "history_json h = JObj
     [(''filename'', nullable JStr (h_filename h)),
      (''processed_at'', JStr (h_processed_at h)),
      (''eco_points_earned'', nullable JNum (eco_points_earned h)),
      (''items_recycled'', nullable JNum (items_recycled h)),
      (''carbon_saved_kg'', nullable JReal (carbon_saved_kg h))]"

definition select_history :: "db \<Rightarrow> string \<Rightarrow> int \<Rightarrow> history_row list" where
  "select_history d username n =
     sql_limit n (order_by_desc h_processed_at (where_username username (history d)))"


text \<open>\<^verbatim>\<open>GROUP BY username\<close>: one group for each username of the table.\<close>

definition group_by_username :: "history_row list \<Rightarrow> (string \<times> history_row list) list" where
  "group_by_username rows =
     map (\<lambda>u. (u, where_username u rows)) (remdups (map h_username rows))"

definition select_leaderboard :: "db \<Rightarrow> (string \<times> agg_row) list" where
  "select_leaderboard d =
     sql_limit 25 (order_by_desc (\<lambda>r. eco_points (snd r))
       (map (\<lambda>g. (fst g, select_sums (snd g))) (group_by_username (history d))))"

definition leaderboard_json :: "string \<times> agg_row \<Rightarrow> json" where
  "leaderboard_json r = JObj
     [(''username'', JStr (fst r)),
      (''eco_points'', JNum (eco_points (snd r))),
      (''items_recycled'', JNum (sum_items_recycled (snd r))),
      (''carbon_saved_kg'', JReal (sum_carbon_saved_kg (snd r)))]"


subsection \<open>Credentials and sessions\<close>

text \<open>\<^verbatim>\<open>process.env.X || 'default'\<close>.\<close>

definition env_or :: "string option \<Rightarrow> string \<Rightarrow> string" where
  "env_or v d = (case v of None \<Rightarrow> d | Some s \<Rightarrow> if s = [] then d else s)"

record config =
  JWT_SECRET :: string
  ADMIN_SECRET :: string

definition load_config :: "string option \<Rightarrow> string option \<Rightarrow> config" where
  "load_config env_jwt env_admin =
     \<lparr> JWT_SECRET = env_or env_jwt ''change_this_to_a_strong_secret'',
       ADMIN_SECRET = env_or env_admin ''change_this_admin_secret'' \<rparr>"

text \<open>Modelled from the spec: \<^verbatim>\<open>bcrypt.hash(password, rounds)\<close> of the bcrypt dependency,
  with the salt it draws; bcrypt reads the first 72 bytes of a password.\<close>

definition bcrypt_hash :: "string \<Rightarrow> nat \<Rightarrow> string \<Rightarrow> pwhash" where
  "bcrypt_hash password rounds salt = Bcrypt rounds salt (take 72 password)"

text \<open>Modelled from the spec: \<^verbatim>\<open>bcrypt.compare(password, hash)\<close> of the bcrypt dependency.\<close>

fun bcrypt_compare :: "string \<Rightarrow> pwhash \<Rightarrow> bool" where
  "bcrypt_compare password (Bcrypt _ _ p) = (take 72 password = p)"

text \<open>The span \<^verbatim>\<open>'7d'\<close> of \<^verbatim>\<open>expiresIn\<close>, in seconds.\<close>

definition days :: "nat \<Rightarrow> nat" where
  "days n = n * 24 * 60 * 60"

text \<open>Modelled from the spec: \<^verbatim>\<open>jwt.sign(user, secret, { expiresIn })\<close> of the jsonwebtoken
  dependency, called at the instant \<open>now\<close> (\<^verbatim>\<open>Date.now()\<close>, in milliseconds): \<open>iat\<close> is the
  second of the call and \<open>exp\<close> is \<open>iat\<close> plus the span.\<close>

definition jwt_sign :: "nat \<Rightarrow> string \<Rightarrow> string \<Rightarrow> nat \<Rightarrow> nat \<Rightarrow> jwt" where
  "jwt_sign uid username secret expiresIn now =
     Jwt \<lparr> jwt_id = uid, jwt_username = username,
           jwt_iat = now div 1000, jwt_exp = now div 1000 + expiresIn \<rparr> secret"

text \<open>Modelled from the spec: \<^verbatim>\<open>jwt.verify(token, secret)\<close> of the jsonwebtoken dependency,
  called with no options at the instant \<open>now\<close>. It fails on a missing token, on one that is
  not of the form of a token, on one signed with another key, and on one whose \<open>exp\<close> is
  not after the clock in whole seconds (the spec's Missing, Malformed, BadSignature and
  Expired), in this order.\<close>

datatype jwt_error = JsonWebTokenError string | TokenExpiredError

definition jwt_verify :: "wire option \<Rightarrow> string \<Rightarrow> nat \<Rightarrow> jwt_error + jwt_payload" where
  "jwt_verify token secret now =
     (case token of
        None \<Rightarrow> Inl (JsonWebTokenError ''jwt must be provided'')
      | Some [] \<Rightarrow> Inl (JsonWebTokenError ''jwt must be provided'')
      | Some [Tok (Jwt payload key)] \<Rightarrow>
          if key \<noteq> secret then Inl (JsonWebTokenError ''invalid signature'')
          else if jwt_exp payload \<le> now div 1000 then Inl TokenExpiredError
          else Inr payload
      | Some _ \<Rightarrow> Inl (JsonWebTokenError ''jwt malformed''))"

text \<open>JavaScript objects as key-value lists; \<^verbatim>\<open>res.json\<close> leaves out a key whose value is
  \<^verbatim>\<open>undefined\<close>.\<close>

type_synonym obj = "(string \<times> json) list"

definition defined :: "(string \<times> json option) list \<Rightarrow> obj" where
  "defined kvs = List.map_filter (\<lambda>kv. map_option (Pair (fst kv)) (snd kv)) kvs"

definition safeUser :: "obj option \<Rightarrow> json" where
  "safeUser row =
     (case row of
        None \<Rightarrow> JNull
      | Some r \<Rightarrow> JObj (defined
          [(''id'', map_of r ''id''),
           (''username'', map_of r ''username''),
           (''created_at'', map_of r ''created_at'')]))"

text \<open>\<^verbatim>\<open>SELECT id, username, created_at\<close> and
  \<^verbatim>\<open>SELECT id, username, password_hash, created_at\<close>.\<close>

definition public_columns :: "user_row \<Rightarrow> obj" where
  "public_columns u =
     [(''id'', JNum (int (u_id u))), (''username'', JStr (u_username u)),
      (''created_at'', JStr (u_created_at u))]"

definition login_columns :: "user_row \<Rightarrow> obj" where
  "login_columns u =
     [(''id'', JNum (int (u_id u))), (''username'', JStr (u_username u)),
      (''password_hash'', JHash (u_password_hash u)),
      (''created_at'', JStr (u_created_at u))]"

text \<open>The INSERT of a user: the UNIQUE constraint on \<open>username\<close>, the AUTOINCREMENT id and
  the default \<^verbatim>\<open>CURRENT_TIMESTAMP\<close>. \<open>Inl\<close> carries the message of the error.\<close>

definition insert_user :: "db \<Rightarrow> string \<Rightarrow> pwhash \<Rightarrow> string \<Rightarrow> string + nat \<times> db" where
  "insert_user d username password_hash current_timestamp =
     (if where_user username (users d) \<noteq> []
      then Inl ''SQLITE_CONSTRAINT: UNIQUE constraint failed: users.username''
      else (let lastID = users_seq d + 1 in
            Inr (lastID,
                 d\<lparr> users := users d @
                      [\<lparr> u_id = lastID, u_username = username,
                         u_password_hash = password_hash,
                         u_created_at = current_timestamp \<rparr>],
                    users_seq := lastID \<rparr>)))"

definition js_includes :: "string \<Rightarrow> string \<Rightarrow> bool" where
  "js_includes s part = (\<exists>i \<in> set [0 ..< Suc (length s)]. take (length part) (drop i s) = part)"

definition invalid_registration :: string where
  "invalid_registration = ''Username must be 3+ chars and password 6+ chars.''"

definition register ::
  "config \<Rightarrow> nat \<Rightarrow> string \<Rightarrow> string \<Rightarrow> string option \<Rightarrow> string option \<Rightarrow> db \<Rightarrow> response \<times> db" where
  "register cfg now current_timestamp salt username password d =
     (case (username, password) of
        (Some u, Some p) \<Rightarrow>
          if u = [] \<or> p = [] \<or> length u < 3 \<or> length p < 6
          then (error_reply 400 invalid_registration, d)
          else (let password_hash = bcrypt_hash p 10 salt in
                case insert_user d u password_hash current_timestamp of
                  Inl message \<Rightarrow>
                    if js_includes message ''UNIQUE''
                    then (error_reply 409 ''Username already exists.'', d)
                    else (error_reply 500 ''Database error.'', d)
                | Inr (lastID, d') \<Rightarrow>
                    (let user = [(''id'', JNum (int lastID)), (''username'', JStr u)];
                         token = jwt_sign lastID u (JWT_SECRET cfg) (days 7) now
                     in (reply 200 (JObj
                           [(''message'', JStr ''Registered''), (''token'', JTok token),
                            (''user'', safeUser (Some user))]), d')))
      | _ \<Rightarrow> (error_reply 400 invalid_registration, d))"

definition login :: "config \<Rightarrow> nat \<Rightarrow> string option \<Rightarrow> string option \<Rightarrow> db \<Rightarrow> response" where
  "login cfg now username password d =
     (case (username, password) of
        (Some u, Some p) \<Rightarrow>
          if u = [] \<or> p = [] then error_reply 400 ''Username & password required.''
          else (case db_get (where_user u (users d)) of
                  None \<Rightarrow> error_reply 401 ''Invalid credentials.''
                | Some row \<Rightarrow>
                    if \<not> bcrypt_compare p (u_password_hash row)
                    then error_reply 401 ''Invalid credentials.''
                    else (let token = jwt_sign (u_id row) (u_username row) (JWT_SECRET cfg)
                                        (days 7) now
                          in reply 200 (JObj
                               [(''message'', JStr ''Logged in''), (''token'', JTok token),
                                (''user'', safeUser (Some (login_columns row)))])))
      | _ \<Rightarrow> error_reply 400 ''Username & password required.'')"

subsection \<open>Token-protected endpoints\<close>

text \<open>\<^verbatim>\<open>s.split(sep)\<close> and \<^verbatim>\<open>xs[i]\<close>, which is \<^verbatim>\<open>undefined\<close> out of range.\<close>

fun split_on :: "'a \<Rightarrow> 'a list \<Rightarrow> 'a list list" where
  "split_on sep [] = [[]]"
| "split_on sep (x # xs) =
     (if x = sep then [] # split_on sep xs
      else (case split_on sep xs of
              w # ws \<Rightarrow> (x # w) # ws
            | [] \<Rightarrow> [[x]]))"

fun index :: "'a list \<Rightarrow> nat \<Rightarrow> 'a option" where
  "index [] i = None"
| "index (x # xs) 0 = Some x"
| "index (x # xs) (Suc i) = index xs i"

text \<open>The middleware: \<open>Inl\<close> is the response it sends, \<open>Inr\<close> the payload it hands to the
  next handler as \<^verbatim>\<open>req.user\<close>.\<close>

definition authenticate :: "config \<Rightarrow> nat \<Rightarrow> request \<Rightarrow> response + jwt_payload" where
  "authenticate cfg now req =
     (case authorization req of
        None \<Rightarrow> Inl (error_reply 401 ''Missing token.'')
      | Some auth \<Rightarrow>
          if auth = [] \<or> \<not> prefix (str ''Bearer '') auth
          then Inl (error_reply 401 ''Missing token.'')
          else (let token = index (split_on (Chr CHR '' '') auth) 1 in
                case jwt_verify token (JWT_SECRET cfg) now of
                  Inl err \<Rightarrow> Inl (error_reply 401 ''Invalid token.'')
                | Inr payload \<Rightarrow> Inr payload))"

definition me :: "config \<Rightarrow> nat \<Rightarrow> request \<Rightarrow> response" where
  "me cfg now req =
     (case authenticate cfg now req of
        Inl res \<Rightarrow> res
      | Inr user \<Rightarrow> reply 200 (JObj [(''user'', JObj
          [(''id'', JNum (int (jwt_id user))), (''username'', JStr (jwt_username user))])]))"

text \<open>A field of the body of \<^verbatim>\<open>POST /api/history\<close>: left out, \<^verbatim>\<open>null\<close> or a value. A
  destructuring default replaces only a field that is left out.\<close>

datatype 'a field = Absent | Null | Val 'a

record history_body =
  b_filename :: "string field"
  b_eco_points_earned :: "int field"
  b_items_recycled :: "int field"
  b_carbon_saved_kg :: "rat field"

definition empty_body :: history_body where
  "empty_body = \<lparr> b_filename = Absent, b_eco_points_earned = Absent,
                   b_items_recycled = Absent, b_carbon_saved_kg = Absent \<rparr>"

definition with_default :: "'a field \<Rightarrow> 'a \<Rightarrow> 'a option" where
  "with_default v d = (case v of Absent \<Rightarrow> Some d | Null \<Rightarrow> None | Val x \<Rightarrow> Some x)"

definition or_string :: "string field \<Rightarrow> string \<Rightarrow> string" where
  "or_string v d = (case v of Val s \<Rightarrow> if s = [] then d else s | _ \<Rightarrow> d)"

definition insert_history ::
  "db \<Rightarrow> string \<Rightarrow> string \<Rightarrow> int option \<Rightarrow> int option \<Rightarrow> rat option \<Rightarrow> string \<Rightarrow> nat \<times> db" where
  "insert_history d username filename points items carbon current_timestamp =
     (let lastID = history_seq d + 1 in
      (lastID,
       d\<lparr> history := history d @
            [\<lparr> h_id = lastID, h_username = username, h_filename = Some filename,
               h_processed_at = current_timestamp, eco_points_earned = points,
               items_recycled = items, carbon_saved_kg = carbon \<rparr>],
          history_seq := lastID \<rparr>))"

definition post_history ::
  "config \<Rightarrow> nat \<Rightarrow> string \<Rightarrow> request \<Rightarrow> history_body option \<Rightarrow> db \<Rightarrow> response \<times> db" where
  "post_history cfg now current_timestamp req body d =
     (case authenticate cfg now req of
        Inl res \<Rightarrow> (res, d)
      | Inr user \<Rightarrow>
          (let username = jwt_username user in
           if username = [] then (error_reply 401 ''Unauthorized'', d)
           else (let b = (case body of None \<Rightarrow> empty_body | Some b \<Rightarrow> b);
                     (lastID, d') = insert_history d username
                        (or_string (b_filename b) ''unknown'')
                        (with_default (b_eco_points_earned b) 0)
                        (with_default (b_items_recycled b) 0)
                        (with_default (b_carbon_saved_kg b) 0)
                        current_timestamp
                 in (reply 200 (JObj [(''insertedId'', JNum (int lastID))]), d'))))"

subsection \<open>Admin endpoints\<close>

text \<open>The middleware: \<open>Some\<close> is the response it sends, \<open>None\<close> is \<^verbatim>\<open>next()\<close>.\<close>

definition adminAuth :: "config \<Rightarrow> request \<Rightarrow> response option" where
  "adminAuth cfg req =
     (let token = (if falsy (x_admin_secret req) then q_admin_secret req
                   else x_admin_secret req) in
      if falsy token \<or> token \<noteq> Some (str (ADMIN_SECRET cfg))
      then Some (error_reply 401 ''Admin auth required'')
      else None)"

text \<open>\<^verbatim>\<open>s.trim()\<close>, and SQLite's \<^verbatim>\<open>LIKE\<close>: \<^verbatim>\<open>%\<close> is any run of characters, \<^verbatim>\<open>_\<close> any one
  character, and ASCII letters match in either case.\<close>

definition trim :: "string \<Rightarrow> string" where
  "trim s = rev (dropWhile is_space (rev (dropWhile is_space s)))"

definition ascii_lower :: "char \<Rightarrow> char" where
  "ascii_lower c =
     (if CHR ''A'' \<le> c \<and> c \<le> CHR ''Z'' then char_of (of_char c + (32::nat)) else c)"

fun sql_like :: "string \<Rightarrow> string \<Rightarrow> bool" where
  "sql_like [] t = (t = [])"
| "sql_like (p # ps) [] = (p = CHR ''%'' \<and> sql_like ps [])"
| "sql_like (p # ps) (c # cs) =
     (if p = CHR ''%'' then sql_like ps (c # cs) \<or> sql_like (p # ps) cs
      else (p = CHR ''_'' \<or> ascii_lower p = ascii_lower c) \<and> sql_like ps cs)"

definition admin_users :: "config \<Rightarrow> request \<Rightarrow> db \<Rightarrow> response" where
  "admin_users cfg req d =
     (case adminAuth cfg req of
        Some res \<Rightarrow> res
      | None \<Rightarrow>
          (let limit = or_nan (parseInt (q_limit req)) 100;
               offset = or_nan (parseInt (q_offset req)) 0;
               search = trim (case q_search req of None \<Rightarrow> [] | Some s \<Rightarrow> s);
               matching = (if search \<noteq> []
                           then filter (\<lambda>u. sql_like (''%'' @ search @ ''%'') (u_username u)) (users d)
                           else users d);
               rows = sql_limit limit (sql_offset offset (order_by_desc u_id matching))
           in reply 200 (JObj [(''users'', JArr (map (\<lambda>u. JObj (public_columns u)) rows))])))"

definition admin_user :: "config \<Rightarrow> request \<Rightarrow> string \<Rightarrow> db \<Rightarrow> response" where
  "admin_user cfg req p_id d =
     (case adminAuth cfg req of
        Some res \<Rightarrow> res
      | None \<Rightarrow>
          (case parseInt (Some p_id) of
             None \<Rightarrow> error_reply 400 ''Invalid id''
           | Some uid \<Rightarrow>
               if uid = 0 then error_reply 400 ''Invalid id''
               else (case db_get (filter (\<lambda>u. int (u_id u) = uid) (users d)) of
                       None \<Rightarrow> error_reply 404 ''Not found''
                     | Some row \<Rightarrow> reply 200 (JObj
                         [(''user'', JObj (public_columns row)),
                          (''history'', JArr (map history_json
                              (select_history d (u_username row) 500)))]))))"

text \<open>The CSV export: \<^verbatim>\<open>${r.id},"${u}",${r.created_at}\n\<close> for each user, in order of id,
  with every double quote of the username doubled.\<close>

fun show_nat :: "nat \<Rightarrow> string" where
  "show_nat n =
     (if n < 10 then [char_of (48 + n)]
      else show_nat (n div 10) @ [char_of (48 + n mod 10)])"

definition double_quotes :: "string \<Rightarrow> string" where
  "double_quotes s = concat (map (\<lambda>c. if c = CHR 0x22 then [c, c] else [c]) s)"

definition csv_line :: "user_row \<Rightarrow> string" where
  "csv_line r =
     show_nat (u_id r) @ '','' @ [CHR 0x22] @ double_quotes (u_username r) @ [CHR 0x22] @ '',''
       @ u_created_at r @ [CHR 0x0A]"

definition admin_export_users_csv :: "config \<Rightarrow> request \<Rightarrow> db \<Rightarrow> response" where
  "admin_export_users_csv cfg req d =
     (case adminAuth cfg req of
        Some res \<Rightarrow> res
      | None \<Rightarrow>
          (200, Csv (''id,username,created_at'' @ [CHR 0x0A]
                       @ concat (map csv_line (order_by u_id (users d))))))"

subsection \<open>Vocabulary of the properties\<close>

text \<open>The contribution of a stored field to a sum: a NULL counts as 0.\<close>

definition num :: "('a::zero) option \<Rightarrow> 'a" where
  "num v = (case v of None \<Rightarrow> 0 | Some x \<Rightarrow> x)"

definition events_of :: "db \<Rightarrow> string \<Rightarrow> history_row list" where
  "events_of d username = [h \<leftarrow> history d. h_username h = username]"



text \<open>The summary of a username as the spec words it, and the usernames that have an event.\<close>

definition sums_of :: "db \<Rightarrow> string \<Rightarrow> agg_row" where
  "sums_of d username =
     \<lparr> eco_points = (\<Sum>h\<leftarrow>events_of d username. num (eco_points_earned h)),
       sum_items_recycled = (\<Sum>h\<leftarrow>events_of d username. num (items_recycled h)),
       sum_carbon_saved_kg = (\<Sum>h\<leftarrow>events_of d username. num (carbon_saved_kg h)) \<rparr>"


text \<open>Non-negative events, stores, summaries and request bodies.\<close>

definition nonneg_event :: "history_row \<Rightarrow> bool" where
  "nonneg_event h =
     (0 \<le> num (eco_points_earned h) \<and> 0 \<le> num (items_recycled h) \<and> 0 \<le> num (carbon_saved_kg h))"

definition nonneg_history :: "db \<Rightarrow> bool" where
  "nonneg_history d = (\<forall>h \<in> set (history d). nonneg_event h)"

definition nonneg_agg :: "agg_row \<Rightarrow> bool" where
  "nonneg_agg a = (0 \<le> eco_points a \<and> 0 \<le> sum_items_recycled a \<and> 0 \<le> sum_carbon_saved_kg a)"

definition nonneg_body :: "history_body \<Rightarrow> bool" where
  "nonneg_body b =
     (0 \<le> num (with_default (b_eco_points_earned b) 0)
      \<and> 0 \<le> num (with_default (b_items_recycled b) 0)
      \<and> 0 \<le> num (with_default (b_carbon_saved_kg b) 0))"

text \<open>The request a client sends with the token \<open>t\<close>: \<^verbatim>\<open>Authorization: Bearer t\<close>.\<close>

definition bearer :: "jwt \<Rightarrow> request" where
  "bearer t = plain_request \<lparr> authorization := Some (str ''Bearer '' @ [Tok t]) \<rparr>"

text \<open>The claim set of a token and the instant, in milliseconds, at which it expires.\<close>

fun token_payload :: "jwt \<Rightarrow> jwt_payload" where
  "token_payload (Jwt payload key) = payload"

definition expiry_instant :: "jwt \<Rightarrow> nat" where
  "expiry_instant t = 1000 * jwt_exp (token_payload t)"


text \<open>The response of the admin gate, and a request that carries a secret in the header.\<close>

definition admin_denied :: response where
  "admin_denied = error_reply 401 ''Admin auth required''"

definition admin_request :: "string \<Rightarrow> request" where
  "admin_request secret = plain_request \<lparr> x_admin_secret := Some (str secret) \<rparr>"

text \<open>A response exposes password material when its JSON holds a password hash or a key
  \<^verbatim>\<open>password_hash\<close> at any depth. \<open>with_hashes f\<close> replaces every stored hash.\<close>

fun leaks :: "json \<Rightarrow> bool" where
  "leaks (JHash h) = True"
| "leaks (JObj kvs) = (\<exists>kv \<in> set kvs. fst kv = ''password_hash'' \<or> leaks (snd kv))"
| "leaks (JArr xs) = (\<exists>x \<in> set xs. leaks x)"
| "leaks _ = False"

fun exposes_password :: "response \<Rightarrow> bool" where
  "exposes_password (_, Json j) = leaks j"
| "exposes_password (_, Csv _) = False"

definition with_hashes :: "(user_row \<Rightarrow> pwhash) \<Rightarrow> db \<Rightarrow> db" where
  "with_hashes f d = d \<lparr> users := map (\<lambda>u. u \<lparr> u_password_hash := f u \<rparr>) (users d) \<rparr>"

subsection \<open>A small store\<close>

text \<open>Two registered users and four events, one of them for a name without an account,
  as \<^verbatim>\<open>seed_history.js\<close> writes them.\<close>

definition example_db :: db where
  "example_db =
     \<lparr> users =
         [\<lparr> u_id = 1, u_username = ''alice'',
            u_password_hash = bcrypt_hash ''secret1'' 10 ''s1'',
            u_created_at = ''2024-01-01 09:00:00'' \<rparr>,
          \<lparr> u_id = 2, u_username = ''bob'',
            u_password_hash = bcrypt_hash ''hunter22'' 10 ''s2'',
            u_created_at = ''2024-01-02 09:00:00'' \<rparr>],
       history =
         [\<lparr> h_id = 1, h_username = ''alice'', h_filename = Some ''bottle.jpg'',
            h_processed_at = ''2024-01-03 10:00:00'', eco_points_earned = Some 10,
            items_recycled = Some 1, carbon_saved_kg = Some (1 / 2) \<rparr>,
          \<lparr> h_id = 2, h_username = ''aakash shetty'', h_filename = Some ''plastic_bottle.jpg'',
            h_processed_at = ''2024-01-04T08:30:00.000Z'', eco_points_earned = Some 12,
            items_recycled = Some 1, carbon_saved_kg = Some (1 / 4) \<rparr>,
          \<lparr> h_id = 3, h_username = ''alice'', h_filename = Some ''paper_box.jpg'',
            h_processed_at = ''2024-01-05 11:00:00'', eco_points_earned = Some 6,
            items_recycled = Some 1, carbon_saved_kg = None \<rparr>,
          \<lparr> h_id = 4, h_username = ''alice'', h_filename = Some ''can.jpg'',
            h_processed_at = ''2024-01-04 12:00:00'', eco_points_earned = Some 4,
            items_recycled = Some 2, carbon_saved_kg = Some (1 / 4) \<rparr>],
       users_seq = 2,
       history_seq = 4 \<rparr>"

definition example_config :: config where
  "example_config = load_config (Some ''k3y'') (Some ''adm1n'')"


text \<open>A token for bob, issued on 2024-01-06, and two bodies for \<^verbatim>\<open>POST /api/history\<close>.\<close>

definition bob_token :: jwt where
  "bob_token = jwt_sign 2 ''bob'' (JWT_SECRET example_config) (days 7) 1704500000000"

definition negative_body :: history_body where
  "negative_body = \<lparr> b_filename = Val ''x.jpg'', b_eco_points_earned = Val (- 25),
                      b_items_recycled = Absent, b_carbon_saved_kg = Null \<rparr>"

definition positive_body :: history_body where
  "positive_body = \<lparr> b_filename = Absent, b_eco_points_earned = Val 7,
                      b_items_recycled = Absent, b_carbon_saved_kg = Val (3 / 10) \<rparr>"

text \<open>A token signed with another key, and a request whose token is no token.\<close>

definition forged_token :: jwt where
  "forged_token = jwt_sign 2 ''bob'' ''not the key'' (days 7) 1704500000000"

definition malformed_request :: request where
  "malformed_request = plain_request \<lparr> authorization := Some (str ''Bearer abc'') \<rparr>"

text \<open>A request that presents bob's session token as the admin secret.\<close>

definition token_as_secret :: request where
  "token_as_secret = plain_request \<lparr> x_admin_secret := Some [Tok bob_token] \<rparr>"


section \<open>Properties\<close>

lemma coalesce_sql_sum: "coalesce (sql_sum vs) 0 = sum_list (map num vs)"
proof -
  have "sum_list (List.map_filter (\<lambda>v. v) vs) = sum_list (map num vs)"
    by (induction vs) (auto simp: List.map_filter_simps num_def split: option.splits)
  then show ?thesis
    by (cases "List.map_filter (\<lambda>v. v) vs") (auto simp: sql_sum_def coalesce_def)
qed

subsection \<open>Aggregation\<close>


lemma db_get_where_user:
  "username \<in> u_username ` set us \<Longrightarrow> \<exists>r. db_get (where_user username us) = Some r \<and> r \<in> set us \<and> u_username r = username"
  by (induction us) (auto simp: where_user_def)

lemma or_num_zero [simp]: "or_num x 0 = x"
  by (simp add: or_num_def)




subsection \<open>History listing\<close>










subsection \<open>Leaderboard\<close>

lemma select_sums_where_username:
  "select_sums (where_username u (history d)) = sums_of d u"
  by (simp add: select_sums_def where_username_def events_of_def sums_of_def
      coalesce_sql_sum comp_def)


lemma leaderboard_groups:
  "map (\<lambda>g. (fst g, select_sums (snd g))) (group_by_username (history d)) =
     map (\<lambda>u. (u, sums_of d u)) (remdups (map h_username (history d)))"
  by (simp add: group_by_username_def comp_def select_sums_where_username)

lemma select_leaderboard_take:
  "select_leaderboard d =
     take 25 (order_by_desc (\<lambda>r. eco_points (snd r))
       (map (\<lambda>u. (u, sums_of d u)) (remdups (map h_username (history d)))))"
  by (simp add: select_leaderboard_def sql_limit_def leaderboard_groups)


lemma set_order_by_desc: "set (order_by_desc k rows) = set rows"
  by (simp add: order_by_desc_def)










subsection \<open>Non-negative aggregates\<close>

lemma sums_of_nonneg: "nonneg_history d \<Longrightarrow> nonneg_agg (sums_of d u)"
  by (auto simp: nonneg_history_def nonneg_event_def nonneg_agg_def sums_of_def events_of_def
      intro!: sum_list_nonneg)

lemma getUserAggregates_sums_of: "getUserAggregates d u = sums_of d u"
  by (simp add: getUserAggregates_def select_sums_where_username)

lemma select_leaderboard_row:
  "r \<in> set (select_leaderboard d) \<Longrightarrow> snd r = sums_of d (fst r)"
proof -
  assume "r \<in> set (select_leaderboard d)"
  then have "r \<in> set (order_by_desc (\<lambda>r. eco_points (snd r))
       (map (\<lambda>u. (u, sums_of d u)) (remdups (map h_username (history d)))))"
    unfolding select_leaderboard_take by (rule in_set_takeD)
  then show ?thesis
    by (auto simp: set_order_by_desc)
qed

lemma post_history_cases:
  "post_history cfg now ts req body d =
     (case authenticate cfg now req of
        Inl res \<Rightarrow> (res, d)
      | Inr user \<Rightarrow>
          if jwt_username user = [] then (error_reply 401 ''Unauthorized'', d)
          else (reply 200 (JObj [(''insertedId'', JNum (int (history_seq d + 1)))]),
                d\<lparr> history := history d @
                    [\<lparr> h_id = history_seq d + 1, h_username = jwt_username user,
                       h_filename = Some (or_string (b_filename (case body of None \<Rightarrow> empty_body | Some b \<Rightarrow> b)) ''unknown''),
                       h_processed_at = ts,
                       eco_points_earned = with_default (b_eco_points_earned (case body of None \<Rightarrow> empty_body | Some b \<Rightarrow> b)) 0,
                       items_recycled = with_default (b_items_recycled (case body of None \<Rightarrow> empty_body | Some b \<Rightarrow> b)) 0,
                       carbon_saved_kg = with_default (b_carbon_saved_kg (case body of None \<Rightarrow> empty_body | Some b \<Rightarrow> b)) 0 \<rparr>],
                  history_seq := history_seq d + 1 \<rparr>))"
  by (simp add: post_history_def insert_history_def Let_def split: sum.splits)

lemma authenticate_status: "authenticate cfg now req = Inl res \<Longrightarrow> fst res = 401"
  by (auto simp: authenticate_def error_reply_def reply_def Let_def
      split: option.splits if_splits sum.splits)

lemma register_history: "history (snd (register cfg now ts salt username password d)) = history d"
  by (auto simp: register_def insert_user_def Let_def split: option.splits sum.splits if_splits)

text \<open>
  C7 (amended). When every stored event has non-negative \<open>eco_points_earned\<close>,
  \<open>items_recycled\<close> and \<open>carbon_saved_kg\<close>, every per-user summary and every leaderboard row
  is non-negative. \<^verbatim>\<open>POST /api/history\<close> stores the values of the body as they are
  (0 for a field left out) and checks no sign: an accepted request keeps the store
  non-negative exactly when the store was and the body's values are; a refused request
  and a registration leave the history as it was.
\<close>

theorem nonnegative_aggregates_of_nonnegative_events:
  "(nonneg_history d \<longrightarrow>
      (\<forall>u. nonneg_agg (getUserAggregates d u))
    \<and> (\<forall>r \<in> set (select_leaderboard d). nonneg_agg (snd r)))
   \<and> (fst (fst (post_history cfg now ts req (Some b) d)) = 200 \<longrightarrow>
        (nonneg_history (snd (post_history cfg now ts req (Some b) d))
           \<longleftrightarrow> nonneg_history d \<and> nonneg_body b))
   \<and> (fst (fst (post_history cfg now ts req (Some b) d)) \<noteq> 200 \<longrightarrow>
        snd (post_history cfg now ts req (Some b) d) = d)
   \<and> history (snd (register cfg now ts salt username password d)) = history d"
proof (intro conjI impI allI ballI)
  assume inv: "nonneg_history d"
  show "nonneg_agg (getUserAggregates d u)" for u
    unfolding getUserAggregates_sums_of using inv by (rule sums_of_nonneg)
  show "nonneg_agg (snd r)" if "r \<in> set (select_leaderboard d)" for r
    unfolding select_leaderboard_row [OF that] using inv by (rule sums_of_nonneg)
next
  assume ok: "fst (fst (post_history cfg now ts req (Some b) d)) = 200"
  show "nonneg_history (snd (post_history cfg now ts req (Some b) d))
           \<longleftrightarrow> nonneg_history d \<and> nonneg_body b"
  proof (cases "authenticate cfg now req")
    case (Inl res)
    then show ?thesis
      using ok authenticate_status [OF Inl] by (simp add: post_history_cases)
  next
    case (Inr user)
    then show ?thesis
      using ok
      by (auto simp: post_history_cases error_reply_def reply_def nonneg_history_def
          nonneg_event_def nonneg_body_def split: if_splits)
  qed
next
  assume "fst (fst (post_history cfg now ts req (Some b) d)) \<noteq> 200"
  then show "snd (post_history cfg now ts req (Some b) d) = d"
    by (auto simp: post_history_cases reply_def split: sum.splits if_splits)
next
  show "history (snd (register cfg now ts salt username password d)) = history d"
    by (rule register_history)
qed

lemma authenticate_bearer:
  "authenticate cfg now (bearer t) =
     (case jwt_verify (Some [Tok t]) (JWT_SECRET cfg) now of
        Inl err \<Rightarrow> Inl (error_reply 401 ''Invalid token.'')
      | Inr payload \<Rightarrow> Inr payload)"
  by (simp add: authenticate_def bearer_def plain_request_def str_def)

lemma profile_of_registered:
  "username \<noteq> [] \<Longrightarrow> db_get (where_user username (users d)) = Some r \<Longrightarrow>
   handleGetUserProfile d username =
      reply 200 (JObj
             [(''id'', JNum (int (u_id r))),
              (''username'', JStr (u_username r)),
              (''created_at'', JStr (u_created_at r)),
              (''eco_points'', JNum (eco_points (getUserAggregates d username))),
              (''items_recycled'', JNum (sum_items_recycled (getUserAggregates d username))),
              (''carbon_saved_kg'', JReal (sum_carbon_saved_kg (getUserAggregates d username)))])"
  by (simp add: handleGetUserProfile_def Let_def)

lemma bob_authenticated:
  "authenticate example_config 1704500001000 (bearer bob_token) =
     Inr \<lparr> jwt_id = 2, jwt_username = ''bob'', jwt_iat = 1704500000, jwt_exp = 1705104800 \<rparr>"
  by (simp add: authenticate_bearer jwt_verify_def bob_token_def jwt_sign_def days_def
      example_config_def load_config_def env_or_def)

lemma example_db_nonneg: "nonneg_history example_db"
  by (simp add: nonneg_history_def nonneg_event_def num_def example_db_def)

theorem nonnegative_aggregates_of_nonnegative_events_witness:
  "nonneg_history example_db
   \<and> nonneg_agg (getUserAggregates example_db ''alice'')
   \<and> fst (fst (post_history example_config 1704500001000 ''2024-01-06 00:00:00''
                 (bearer bob_token) (Some positive_body) example_db)) = 200
   \<and> nonneg_body positive_body
   \<and> nonneg_history (snd (post_history example_config 1704500001000 ''2024-01-06 00:00:00''
                 (bearer bob_token) (Some positive_body) example_db))
   \<and> fst (fst (post_history example_config 1704500001000 ''2024-01-06 00:00:00''
                 plain_request (Some positive_body) example_db)) = 401
   \<and> snd (post_history example_config 1704500001000 ''2024-01-06 00:00:00''
                 plain_request (Some positive_body) example_db) = example_db"
proof -
  note inst = nonnegative_aggregates_of_nonnegative_events [of example_db example_config 1704500001000 "''2024-01-06 00:00:00''"
      "bearer bob_token" positive_body]
  note anon = nonnegative_aggregates_of_nonnegative_events [of example_db example_config 1704500001000 "''2024-01-06 00:00:00''"
      plain_request positive_body]
  have ok: "fst (fst (post_history example_config 1704500001000 ''2024-01-06 00:00:00''
                 (bearer bob_token) (Some positive_body) example_db)) = 200"
    by (simp add: post_history_cases bob_authenticated reply_def)
  have body: "nonneg_body positive_body"
    by (simp add: nonneg_body_def positive_body_def with_default_def num_def)
  have agg: "nonneg_agg (getUserAggregates example_db ''alice'')"
    using inst [THEN conjunct1] example_db_nonneg by blast
  have after: "nonneg_history (snd (post_history example_config 1704500001000
                 ''2024-01-06 00:00:00'' (bearer bob_token) (Some positive_body) example_db))"
    using inst [THEN conjunct2, THEN conjunct1] ok body example_db_nonneg by blast
  have denied: "fst (fst (post_history example_config 1704500001000 ''2024-01-06 00:00:00''
                 plain_request (Some positive_body) example_db)) = 401"
    by (simp add: post_history_cases authenticate_def plain_request_def error_reply_def reply_def)
  then have "fst (fst (post_history example_config 1704500001000 ''2024-01-06 00:00:00''
                 plain_request (Some positive_body) example_db)) \<noteq> 200"
    by simp
  with anon [THEN conjunct2, THEN conjunct2, THEN conjunct1]
  have same: "snd (post_history example_config 1704500001000 ''2024-01-06 00:00:00''
                 plain_request (Some positive_body) example_db) = example_db"
    by (rule mp)
  from example_db_nonneg agg ok body after denied same show ?thesis by (intro conjI)
qed

text \<open>
  C7 as stated fails: an authenticated body with \<open>eco_points_earned = -25\<close> is stored, and
  bob's summary becomes negative.
\<close>

theorem history_post_negative_counterexample:
  "nonneg_history example_db
   \<and> fst (post_history example_config 1704500001000 ''2024-01-06 00:00:00''
            (bearer bob_token) (Some negative_body) example_db)
       = reply 200 (JObj [(''insertedId'', JNum 5)])
   \<and> eco_points_earned (last (history (snd (post_history example_config 1704500001000
            ''2024-01-06 00:00:00'' (bearer bob_token) (Some negative_body) example_db))))
       = Some (- 25)
   \<and> \<not> nonneg_history (snd (post_history example_config 1704500001000 ''2024-01-06 00:00:00''
            (bearer bob_token) (Some negative_body) example_db))
   \<and> eco_points (getUserAggregates (snd (post_history example_config 1704500001000
            ''2024-01-06 00:00:00'' (bearer bob_token) (Some negative_body) example_db)) ''bob'')
       = - 25
   \<and> json_field ''eco_points'' (handleGetUserProfile (snd (post_history example_config
            1704500001000 ''2024-01-06 00:00:00'' (bearer bob_token) (Some negative_body)
            example_db)) ''bob'')
       = Some (JNum (- 25))"
proof -
  define d' where "d' = snd (post_history example_config 1704500001000 ''2024-01-06 00:00:00''
            (bearer bob_token) (Some negative_body) example_db)"
  have post: "post_history example_config 1704500001000 ''2024-01-06 00:00:00''
            (bearer bob_token) (Some negative_body) example_db =
      (reply 200 (JObj [(''insertedId'', JNum 5)]),
       example_db \<lparr> history := history example_db @
           [\<lparr> h_id = 5, h_username = ''bob'', h_filename = Some ''x.jpg'',
              h_processed_at = ''2024-01-06 00:00:00'', eco_points_earned = Some (- 25),
              items_recycled = Some 0, carbon_saved_kg = None \<rparr>],
         history_seq := 5 \<rparr>)"
    by (simp add: post_history_cases bob_authenticated negative_body_def with_default_def
        or_string_def) (simp add: example_db_def)
  have d': "d' = example_db \<lparr> history := history example_db @
           [\<lparr> h_id = 5, h_username = ''bob'', h_filename = Some ''x.jpg'',
              h_processed_at = ''2024-01-06 00:00:00'', eco_points_earned = Some (- 25),
              items_recycled = Some 0, carbon_saved_kg = None \<rparr>],
         history_seq := 5 \<rparr>"
    by (simp add: d'_def post)
  have a: "eco_points_earned (last (history d')) = Some (- 25)"
    by (simp add: d')
  have b: "\<not> nonneg_history d'"
    by (simp add: d' nonneg_history_def nonneg_event_def num_def)
  have ev: "events_of d' ''bob'' = [last (history d')]"
    by (simp add: d' events_of_def example_db_def)
  have c: "eco_points (getUserAggregates d' ''bob'') = - 25"
    by (simp add: getUserAggregates_sums_of sums_of_def ev a num_def)
  have "db_get (where_user ''bob'' (users d')) = Some (users example_db ! 1)"
    by (simp add: d' example_db_def where_user_def)
  then have e: "json_field ''eco_points'' (handleGetUserProfile d' ''bob'') = Some (JNum (- 25))"
    by (simp add: profile_of_registered c reply_def)
  from example_db_nonneg post a b c e show ?thesis
    unfolding d'_def by simp
qed

subsection \<open>Session tokens\<close>

lemma seconds_before: "(now div 1000 < e) = (now < 1000 * (e::nat))"
  by (simp add: div_less_iff_less_mult mult.commute)

lemma jwt_verify_own_token:
  "jwt_verify (Some [Tok (Jwt payload key)]) key now =
     (if now < 1000 * jwt_exp payload then Inr payload else Inl TokenExpiredError)"
  by (simp add: jwt_verify_def seconds_before [symmetric] not_less)

lemma register_token:
  "fst (fst (register cfg now ts salt (Some u) (Some p) d)) = 200 \<Longrightarrow>
   json_field ''token'' (fst (register cfg now ts salt (Some u) (Some p) d)) =
     Some (JTok (jwt_sign (users_seq d + 1) u (JWT_SECRET cfg) (days 7) now))"
  by (auto simp: register_def insert_user_def Let_def error_reply_def reply_def
      split: if_splits)

lemma login_token:
  "fst (login cfg now (Some u) (Some p) d) = 200 \<Longrightarrow>
   \<exists>row \<in> set (users d). u_username row = u \<and>
     json_field ''token'' (login cfg now (Some u) (Some p) d) =
       Some (JTok (jwt_sign (u_id row) u (JWT_SECRET cfg) (days 7) now))"
proof -
  assume ok: "fst (login cfg now (Some u) (Some p) d) = 200"
  then obtain row where row: "db_get (where_user u (users d)) = Some row"
    by (cases "db_get (where_user u (users d))")
       (auto simp: login_def error_reply_def reply_def split: if_splits)
  then have "where_user u (users d) \<noteq> []" by auto
  then obtain rest where "where_user u (users d) = row # rest"
    using row by (cases "where_user u (users d)") auto
  then have "row \<in> set (where_user u (users d))" by simp
  then have mem: "row \<in> set (users d) \<and> u_username row = u"
    by (simp add: where_user_def)
  have "json_field ''token'' (login cfg now (Some u) (Some p) d) =
       Some (JTok (jwt_sign (u_id row) u (JWT_SECRET cfg) (days 7) now))"
    using ok row mem
    by (auto simp: login_def error_reply_def reply_def Let_def split: if_splits)
  with mem show ?thesis by blast
qed

text \<open>
  C2. A token signed with \<^verbatim>\<open>expiresIn: '7d'\<close> at the instant \<open>issued\<close> carries
  \<open>exp = iat + 7 * 24 * 60 * 60\<close> with \<open>iat\<close> the second of issue. Verified with the issuing
  secret it is accepted at every instant strictly before its expiry instant and refused as
  expired at the expiry instant and at every later one; the middleware accordingly passes
  the payload on, or answers 401. Registration and login issue exactly such tokens.
\<close>

theorem issued_token_verifies_until_expiry:
  "jwt_exp (token_payload (jwt_sign uid username secret (days 7) issued))
     = jwt_iat (token_payload (jwt_sign uid username secret (days 7) issued)) + 7 * 24 * 60 * 60
   \<and> jwt_iat (token_payload (jwt_sign uid username secret (days 7) issued)) = issued div 1000
   \<and> (now < expiry_instant (jwt_sign uid username secret (days 7) issued) \<longrightarrow>
        jwt_verify (Some [Tok (jwt_sign uid username secret (days 7) issued)]) secret now
          = Inr (token_payload (jwt_sign uid username secret (days 7) issued)))
   \<and> (expiry_instant (jwt_sign uid username secret (days 7) issued) \<le> now \<longrightarrow>
        jwt_verify (Some [Tok (jwt_sign uid username secret (days 7) issued)]) secret now
          = Inl TokenExpiredError)
   \<and> (now < expiry_instant (jwt_sign uid username (JWT_SECRET cfg) (days 7) issued) \<longrightarrow>
        authenticate cfg now (bearer (jwt_sign uid username (JWT_SECRET cfg) (days 7) issued))
          = Inr (token_payload (jwt_sign uid username (JWT_SECRET cfg) (days 7) issued)))
   \<and> (expiry_instant (jwt_sign uid username (JWT_SECRET cfg) (days 7) issued) \<le> now \<longrightarrow>
        authenticate cfg now (bearer (jwt_sign uid username (JWT_SECRET cfg) (days 7) issued))
          = Inl (error_reply 401 ''Invalid token.''))
   \<and> (fst (fst (register cfg issued ts salt (Some username) (Some password) d)) = 200 \<longrightarrow>
        json_field ''token'' (fst (register cfg issued ts salt (Some username) (Some password) d))
          = Some (JTok (jwt_sign (users_seq d + 1) username (JWT_SECRET cfg) (days 7) issued)))
   \<and> (fst (login cfg issued (Some username) (Some password) d) = 200 \<longrightarrow>
        (\<exists>row \<in> set (users d). u_username row = username \<and>
           json_field ''token'' (login cfg issued (Some username) (Some password) d)
             = Some (JTok (jwt_sign (u_id row) username (JWT_SECRET cfg) (days 7) issued))))"
proof (intro conjI impI)
  show "jwt_exp (token_payload (jwt_sign uid username secret (days 7) issued))
     = jwt_iat (token_payload (jwt_sign uid username secret (days 7) issued)) + 7 * 24 * 60 * 60"
    by (simp add: jwt_sign_def days_def)
  show "jwt_iat (token_payload (jwt_sign uid username secret (days 7) issued)) = issued div 1000"
    by (simp add: jwt_sign_def)
  show "jwt_verify (Some [Tok (jwt_sign uid username secret (days 7) issued)]) secret now
          = Inr (token_payload (jwt_sign uid username secret (days 7) issued))"
    if "now < expiry_instant (jwt_sign uid username secret (days 7) issued)"
    using that by (simp add: jwt_sign_def expiry_instant_def jwt_verify_own_token)
  show "jwt_verify (Some [Tok (jwt_sign uid username secret (days 7) issued)]) secret now
          = Inl TokenExpiredError"
    if "expiry_instant (jwt_sign uid username secret (days 7) issued) \<le> now"
    using that by (simp add: jwt_sign_def expiry_instant_def jwt_verify_own_token)
  show "authenticate cfg now (bearer (jwt_sign uid username (JWT_SECRET cfg) (days 7) issued))
          = Inr (token_payload (jwt_sign uid username (JWT_SECRET cfg) (days 7) issued))"
    if "now < expiry_instant (jwt_sign uid username (JWT_SECRET cfg) (days 7) issued)"
    using that
    by (simp add: authenticate_bearer jwt_sign_def expiry_instant_def jwt_verify_own_token)
  show "authenticate cfg now (bearer (jwt_sign uid username (JWT_SECRET cfg) (days 7) issued))
          = Inl (error_reply 401 ''Invalid token.'')"
    if "expiry_instant (jwt_sign uid username (JWT_SECRET cfg) (days 7) issued) \<le> now"
    using that
    by (simp add: authenticate_bearer jwt_sign_def expiry_instant_def jwt_verify_own_token)
  show "json_field ''token'' (fst (register cfg issued ts salt (Some username) (Some password) d))
          = Some (JTok (jwt_sign (users_seq d + 1) username (JWT_SECRET cfg) (days 7) issued))"
    if "fst (fst (register cfg issued ts salt (Some username) (Some password) d)) = 200"
    using that by (rule register_token)
  show "\<exists>row \<in> set (users d). u_username row = username \<and>
           json_field ''token'' (login cfg issued (Some username) (Some password) d)
             = Some (JTok (jwt_sign (u_id row) username (JWT_SECRET cfg) (days 7) issued))"
    if "fst (login cfg issued (Some username) (Some password) d) = 200"
    using that by (rule login_token)
qed

lemma bob_expiry: "expiry_instant bob_token = 1705104800000"
  by (simp add: expiry_instant_def bob_token_def jwt_sign_def days_def)

lemma bob_login:
  "login example_config 1704500000000 (Some ''bob'') (Some ''hunter22'') example_db =
     reply 200 (JObj
       [(''message'', JStr ''Logged in''), (''token'', JTok bob_token),
        (''user'', JObj [(''id'', JNum 2), (''username'', JStr ''bob''),
                         (''created_at'', JStr ''2024-01-02 09:00:00'')])])"
  by (simp add: login_def example_db_def where_user_def bcrypt_hash_def bob_token_def
      safeUser_def login_columns_def defined_def List.map_filter_simps)

lemma carol_register:
  "fst (register example_config 1704500000000 ''2024-01-06 00:00:00'' ''s3'' (Some ''carol'')
          (Some ''s3cret!'') example_db) =
     reply 200 (JObj
       [(''message'', JStr ''Registered''),
        (''token'', JTok (jwt_sign 3 ''carol'' (JWT_SECRET example_config) (days 7) 1704500000000)),
        (''user'', JObj [(''id'', JNum 3), (''username'', JStr ''carol'')])])"
  by (simp add: register_def insert_user_def example_db_def where_user_def
      safeUser_def defined_def List.map_filter_simps)

theorem issued_token_verifies_until_expiry_witness:
  "json_field ''token'' (login example_config 1704500000000 (Some ''bob'') (Some ''hunter22'')
       example_db) = Some (JTok bob_token)
   \<and> json_field ''token'' (fst (register example_config 1704500000000 ''2024-01-06 00:00:00''
       ''s3'' (Some ''carol'') (Some ''s3cret!'') example_db))
       = Some (JTok (jwt_sign 3 ''carol'' (JWT_SECRET example_config) (days 7) 1704500000000))
   \<and> expiry_instant bob_token = 1705104800000
   \<and> authenticate example_config 1705104799999 (bearer bob_token) = Inr (token_payload bob_token)
   \<and> authenticate example_config 1705104800000 (bearer bob_token)
       = Inl (error_reply 401 ''Invalid token.'')
   \<and> jwt_verify (Some [Tok bob_token]) (JWT_SECRET example_config) 1705104799999
       = Inr (token_payload bob_token)
   \<and> jwt_verify (Some [Tok bob_token]) (JWT_SECRET example_config) 1705104800000
       = Inl TokenExpiredError"
proof -
  note before = issued_token_verifies_until_expiry [where uid = 2 and username = "''bob''" and cfg = example_config
      and secret = "JWT_SECRET example_config" and issued = 1704500000000
      and now = 1705104799999 and password = "''hunter22''" and d = example_db,
      folded bob_token_def]
  note after = issued_token_verifies_until_expiry [where uid = 2 and username = "''bob''" and cfg = example_config
      and secret = "JWT_SECRET example_config" and issued = 1704500000000
      and now = 1705104800000, folded bob_token_def]
  note carol = issued_token_verifies_until_expiry [where username = "''carol''" and cfg = example_config
      and issued = 1704500000000 and ts = "''2024-01-06 00:00:00''" and salt = "''s3''"
      and password = "''s3cret!''" and d = example_db]
  have w1: "json_field ''token'' (login example_config 1704500000000 (Some ''bob'')
       (Some ''hunter22'') example_db) = Some (JTok bob_token)"
    by (simp add: bob_login reply_def)
  have "fst (fst (register example_config 1704500000000 ''2024-01-06 00:00:00'' ''s3''
       (Some ''carol'') (Some ''s3cret!'') example_db)) = 200"
    by (simp add: carol_register reply_def)
  then have w2: "json_field ''token'' (fst (register example_config 1704500000000
       ''2024-01-06 00:00:00'' ''s3'' (Some ''carol'') (Some ''s3cret!'') example_db))
       = Some (JTok (jwt_sign 3 ''carol'' (JWT_SECRET example_config) (days 7) 1704500000000))"
    using carol by (simp add: example_db_def)
  have lt: "1705104799999 < expiry_instant bob_token" by (simp add: bob_expiry)
  have ge: "expiry_instant bob_token \<le> 1705104800000" by (simp add: bob_expiry)
  from before lt
  have w4: "authenticate example_config 1705104799999 (bearer bob_token)
      = Inr (token_payload bob_token)"
    and w6: "jwt_verify (Some [Tok bob_token]) (JWT_SECRET example_config) 1705104799999
       = Inr (token_payload bob_token)"
    by simp_all
  from after ge
  have w5: "authenticate example_config 1705104800000 (bearer bob_token)
       = Inl (error_reply 401 ''Invalid token.'')"
    and w7: "jwt_verify (Some [Tok bob_token]) (JWT_SECRET example_config) 1705104800000
       = Inl TokenExpiredError"
    by simp_all
  from w1 w2 bob_expiry w4 w5 w6 w7 show ?thesis by (intro conjI)
qed

subsection \<open>Token failures\<close>

lemma split_on_no_sep: "sep \<notin> set w \<Longrightarrow> split_on sep w = [w]"
  by (induction w) auto

lemma split_on_append_sep:
  "sep \<notin> set xs \<Longrightarrow> split_on sep (xs @ sep # w) = xs # split_on sep w"
  by (induction xs) auto

lemma str_is_empty: "(str s = []) = (s = [])"
  by (simp add: str_def)

lemma bearer_token_part:
  "Chr CHR '' '' \<notin> set w \<Longrightarrow>
     index (split_on (Chr CHR '' '') (str ''Bearer '' @ w)) (Suc 0) = Some w"
proof -
  assume w: "Chr CHR '' '' \<notin> set w"
  have eq: "str ''Bearer '' @ w = str ''Bearer'' @ Chr CHR '' '' # w"
    by (simp add: str_def)
  have "Chr CHR '' '' \<notin> set (str ''Bearer'')"
    by (simp add: str_def)
  then have "split_on (Chr CHR '' '') (str ''Bearer'' @ Chr CHR '' '' # w)
      = str ''Bearer'' # split_on (Chr CHR '' '') w"
    by (rule split_on_append_sep)
  also have "split_on (Chr CHR '' '') w = [w]"
    using w by (rule split_on_no_sep)
  finally show ?thesis
    unfolding eq by simp
qed

lemma authenticate_Inl:
  "authenticate cfg now req = Inl res \<Longrightarrow>
     res = error_reply 401 ''Missing token.'' \<or> res = error_reply 401 ''Invalid token.''"
  by (auto simp: authenticate_def Let_def split: option.splits if_splits sum.splits)

lemma authenticate_missing:
  "authenticate cfg now req = Inl (error_reply 401 ''Missing token.'')
     \<longleftrightarrow> (authorization req = None
          \<or> (\<exists>a. authorization req = Some a \<and> \<not> prefix (str ''Bearer '') a))"
  by (auto simp: authenticate_def Let_def error_reply_def reply_def str_is_empty
      split: option.splits if_splits sum.splits)

lemma authenticate_invalid:
  assumes "authorization req = Some (str ''Bearer '' @ w)" and "Chr CHR '' '' \<notin> set w"
    and "jwt_verify (Some w) (JWT_SECRET cfg) now = Inl e"
  shows "authenticate cfg now req = Inl (error_reply 401 ''Invalid token.'')"
proof -
  show ?thesis
    using assms by (simp add: authenticate_def bearer_token_part str_is_empty)
qed

text \<open>
  C3 (amended). On both token-protected endpoints a request the middleware refuses is
  answered by the middleware's response, without a change of the store; the status is 401
  and the body is one of two: \<^verbatim>\<open>{error: 'Missing token.'}\<close> exactly when the header is absent
  or does not start with \<^verbatim>\<open>Bearer \<close>, and \<^verbatim>\<open>{error: 'Invalid token.'}\<close> for every token
  that \<^verbatim>\<open>jwt.verify\<close> rejects, whatever its error (malformed, bad signature, expired).
\<close>

theorem token_failures_answer_401:
  "(authenticate cfg now req = Inl res \<longrightarrow>
       me cfg now req = res
     \<and> post_history cfg now ts req body d = (res, d)
     \<and> fst res = 401
     \<and> (res = error_reply 401 ''Missing token.'' \<or> res = error_reply 401 ''Invalid token.''))
   \<and> (authenticate cfg now req = Inl (error_reply 401 ''Missing token.'')
        \<longleftrightarrow> (authorization req = None
             \<or> (\<exists>a. authorization req = Some a \<and> \<not> prefix (str ''Bearer '') a)))
   \<and> (authorization req = Some (str ''Bearer '' @ w) \<and> Chr CHR '' '' \<notin> set w
        \<and> jwt_verify (Some w) (JWT_SECRET cfg) now = Inl e \<longrightarrow>
        authenticate cfg now req = Inl (error_reply 401 ''Invalid token.''))"
proof (intro conjI impI)
  assume fail: "authenticate cfg now req = Inl res"
  show "me cfg now req = res" by (simp add: me_def fail)
  show "post_history cfg now ts req body d = (res, d)" by (simp add: post_history_def fail)
  show "fst res = 401" using fail by (rule authenticate_status)
  show "res = error_reply 401 ''Missing token.'' \<or> res = error_reply 401 ''Invalid token.''"
    using fail by (rule authenticate_Inl)
next
  show "authenticate cfg now req = Inl (error_reply 401 ''Missing token.'')
        \<longleftrightarrow> (authorization req = None
             \<or> (\<exists>a. authorization req = Some a \<and> \<not> prefix (str ''Bearer '') a))"
    by (rule authenticate_missing)
next
  assume "authorization req = Some (str ''Bearer '' @ w) \<and> Chr CHR '' '' \<notin> set w
        \<and> jwt_verify (Some w) (JWT_SECRET cfg) now = Inl e"
  then show "authenticate cfg now req = Inl (error_reply 401 ''Invalid token.'')"
    using authenticate_invalid by blast
qed

lemma malformed_header:
  "authorization malformed_request = Some (str ''Bearer '' @ str ''abc'')
   \<and> Chr CHR '' '' \<notin> set (str ''abc'')"
  by (simp add: malformed_request_def str_def)

lemma bearer_header:
  "authorization (bearer t) = Some (str ''Bearer '' @ [Tok t]) \<and> Chr CHR '' '' \<notin> set [Tok t]"
  by (simp add: bearer_def)

lemma verify_malformed:
  "jwt_verify (Some (str ''abc'')) (JWT_SECRET example_config) 1704500001000
     = Inl (JsonWebTokenError ''jwt malformed'')"
  by (simp add: jwt_verify_def str_def)

lemma verify_forged:
  "jwt_verify (Some [Tok forged_token]) (JWT_SECRET example_config) 1704500001000
     = Inl (JsonWebTokenError ''invalid signature'')"
  by (simp add: jwt_verify_def forged_token_def jwt_sign_def example_config_def
      load_config_def env_or_def)

lemma verify_expired:
  "jwt_verify (Some [Tok bob_token]) (JWT_SECRET example_config) 1705104800000
     = Inl TokenExpiredError"
  by (simp add: jwt_verify_def bob_token_def jwt_sign_def days_def)

theorem token_failures_answer_401_witness:
  "jwt_verify (Some (str ''abc'')) (JWT_SECRET example_config) 1704500001000
     = Inl (JsonWebTokenError ''jwt malformed'')
   \<and> jwt_verify (Some [Tok forged_token]) (JWT_SECRET example_config) 1704500001000
     = Inl (JsonWebTokenError ''invalid signature'')
   \<and> jwt_verify (Some [Tok bob_token]) (JWT_SECRET example_config) 1705104800000
     = Inl TokenExpiredError
   \<and> me example_config 1704500001000 malformed_request = error_reply 401 ''Invalid token.''
   \<and> me example_config 1704500001000 (bearer forged_token) = error_reply 401 ''Invalid token.''
   \<and> me example_config 1705104800000 (bearer bob_token) = error_reply 401 ''Invalid token.''
   \<and> me example_config 1704500001000 plain_request = error_reply 401 ''Missing token.''
   \<and> post_history example_config 1705104800000 ''2024-01-13 00:13:20'' (bearer bob_token)
        (Some positive_body) example_db = (error_reply 401 ''Invalid token.'', example_db)"
proof -
  have a1: "authenticate example_config 1704500001000 malformed_request
      = Inl (error_reply 401 ''Invalid token.'')"
    using token_failures_answer_401 [where cfg = example_config and now = 1704500001000 and req = malformed_request
        and w = "str ''abc''" and e = "JsonWebTokenError ''jwt malformed''"]
      malformed_header verify_malformed by blast
  have a2: "authenticate example_config 1704500001000 (bearer forged_token)
      = Inl (error_reply 401 ''Invalid token.'')"
    using token_failures_answer_401 [where cfg = example_config and now = 1704500001000 and req = "bearer forged_token"
        and w = "[Tok forged_token]" and e = "JsonWebTokenError ''invalid signature''"]
      bearer_header verify_forged by blast
  have a3: "authenticate example_config 1705104800000 (bearer bob_token)
      = Inl (error_reply 401 ''Invalid token.'')"
    using token_failures_answer_401 [where cfg = example_config and now = 1705104800000 and req = "bearer bob_token"
        and w = "[Tok bob_token]" and e = TokenExpiredError]
      bearer_header verify_expired by blast
  have "authorization plain_request = None" by (simp add: plain_request_def)
  then have a4: "authenticate example_config 1704500001000 plain_request
      = Inl (error_reply 401 ''Missing token.'')"
    using token_failures_answer_401 [where cfg = example_config and now = 1704500001000 and req = plain_request]
    by blast
  have m1: "me example_config 1704500001000 malformed_request = error_reply 401 ''Invalid token.''"
    using token_failures_answer_401 [where cfg = example_config and now = 1704500001000 and req = malformed_request
        and res = "error_reply 401 ''Invalid token.''"] a1 by blast
  have m2: "me example_config 1704500001000 (bearer forged_token)
      = error_reply 401 ''Invalid token.''"
    using token_failures_answer_401 [where cfg = example_config and now = 1704500001000 and req = "bearer forged_token"
        and res = "error_reply 401 ''Invalid token.''"] a2 by blast
  have m3: "me example_config 1705104800000 (bearer bob_token)
      = error_reply 401 ''Invalid token.''
    \<and> post_history example_config 1705104800000 ''2024-01-13 00:13:20'' (bearer bob_token)
        (Some positive_body) example_db = (error_reply 401 ''Invalid token.'', example_db)"
    using token_failures_answer_401 [where cfg = example_config and now = 1705104800000 and req = "bearer bob_token"
        and res = "error_reply 401 ''Invalid token.''" and ts = "''2024-01-13 00:13:20''"
        and body = "Some positive_body" and d = example_db] a3 by blast
  have m4: "me example_config 1704500001000 plain_request = error_reply 401 ''Missing token.''"
    using token_failures_answer_401 [where cfg = example_config and now = 1704500001000 and req = plain_request
        and res = "error_reply 401 ''Missing token.''"] a4 by blast
  from verify_malformed verify_forged verify_expired m1 m2 m3 m4 show ?thesis
    by (intro conjI) simp_all
qed

text \<open>
  C3 as stated fails: a missing token and a malformed token get different bodies.
\<close>

theorem missing_and_invalid_token_differ_counterexample:
  "me example_config 1704500001000 plain_request = error_reply 401 ''Missing token.''
   \<and> me example_config 1704500001000 malformed_request = error_reply 401 ''Invalid token.''
   \<and> snd (me example_config 1704500001000 plain_request)
       \<noteq> snd (me example_config 1704500001000 malformed_request)
   \<and> fst (post_history example_config 1704500001000 ''2024-01-06 00:00:00'' plain_request
        None example_db)
       \<noteq> fst (post_history example_config 1704500001000 ''2024-01-06 00:00:00''
        malformed_request None example_db)"
  by (simp add: me_def post_history_def authenticate_def plain_request_def malformed_request_def
      str_def jwt_verify_def error_reply_def reply_def)

subsection \<open>Login\<close>

lemma db_get_where_user_None:
  "u \<notin> u_username ` set us \<Longrightarrow> db_get (where_user u us) = None"
  by (induction us) (auto simp: where_user_def)


lemma login_wrong_password:
  assumes "u \<noteq> []" and "p \<noteq> []" and "u \<in> u_username ` set (users d)"
    and "\<forall>r \<in> set (users d). u_username r = u \<longrightarrow> \<not> bcrypt_compare p (u_password_hash r)"
  shows "login cfg now (Some u) (Some p) d = error_reply 401 ''Invalid credentials.''"
proof -
  obtain row where row: "db_get (where_user u (users d)) = Some row"
    "row \<in> set (users d)" "u_username row = u"
    using db_get_where_user [OF assms(3)] by blast
  with assms(4) have "\<not> bcrypt_compare p (u_password_hash row)" by blast
  with assms(1,2) row show ?thesis
    by (simp add: login_def)
qed

lemma login_unknown_username:
  assumes "u \<noteq> []" and "p \<noteq> []" and "u \<notin> u_username ` set (users d)"
  shows "login cfg now (Some u) (Some p) d = error_reply 401 ''Invalid credentials.''"
  using assms by (simp add: login_def db_get_where_user_None)

text \<open>
  C4. A login with a registered username and a password that matches none of its rows, and a
  login with a username that is not registered, get the same response: 401 with
  \<^verbatim>\<open>{error: 'Invalid credentials.'}\<close>. Whatever the password field holds, also when it is
  missing or empty, the two logins get equal responses.
\<close>

theorem login_hides_whether_username_exists:
  "(u \<noteq> [] \<and> p \<noteq> [] \<and> u \<in> u_username ` set (users d)
      \<and> (\<forall>r \<in> set (users d). u_username r = u \<longrightarrow> \<not> bcrypt_compare p (u_password_hash r))
     \<longrightarrow> login cfg now (Some u) (Some p) d = error_reply 401 ''Invalid credentials.'')
   \<and> (u' \<noteq> [] \<and> p' \<noteq> [] \<and> u' \<notin> u_username ` set (users d)
     \<longrightarrow> login cfg now' (Some u') (Some p') d = error_reply 401 ''Invalid credentials.'')
   \<and> (u \<noteq> [] \<and> u' \<noteq> [] \<and> u \<in> u_username ` set (users d)
      \<and> (\<forall>r \<in> set (users d). \<forall>q. password = Some q \<and> u_username r = u
            \<longrightarrow> \<not> bcrypt_compare q (u_password_hash r))
      \<and> u' \<notin> u_username ` set (users d)
     \<longrightarrow> login cfg now (Some u) password d = login cfg now' (Some u') password d)"
proof (intro conjI impI)
  assume a: "u \<noteq> [] \<and> p \<noteq> [] \<and> u \<in> u_username ` set (users d)
      \<and> (\<forall>r \<in> set (users d). u_username r = u \<longrightarrow> \<not> bcrypt_compare p (u_password_hash r))"
  then show "login cfg now (Some u) (Some p) d = error_reply 401 ''Invalid credentials.''"
    by (simp add: login_wrong_password)
next
  assume b: "u' \<noteq> [] \<and> p' \<noteq> [] \<and> u' \<notin> u_username ` set (users d)"
  then show "login cfg now' (Some u') (Some p') d = error_reply 401 ''Invalid credentials.''"
    by (simp add: login_unknown_username)
next
  assume c: "u \<noteq> [] \<and> u' \<noteq> [] \<and> u \<in> u_username ` set (users d)
      \<and> (\<forall>r \<in> set (users d). \<forall>q. password = Some q \<and> u_username r = u
            \<longrightarrow> \<not> bcrypt_compare q (u_password_hash r))
      \<and> u' \<notin> u_username ` set (users d)"
  show "login cfg now (Some u) password d = login cfg now' (Some u') password d"
  proof (cases password)
    case None
    then show ?thesis by (simp add: login_def)
  next
    case (Some q)
    show ?thesis
    proof (cases "q = []")
      case True
      with Some show ?thesis by (simp add: login_def)
    next
      case False
      with c Some have "login cfg now (Some u) (Some q) d = error_reply 401 ''Invalid credentials.''"
        by (simp add: login_wrong_password)
      moreover from c False
      have "login cfg now' (Some u') (Some q) d = error_reply 401 ''Invalid credentials.''"
        by (simp add: login_unknown_username)
      ultimately show ?thesis using Some by simp
    qed
  qed
qed

theorem login_hides_whether_username_exists_witness:
  "login example_config 1704500000000 (Some ''alice'') (Some ''hunter22'') example_db
     = error_reply 401 ''Invalid credentials.''
   \<and> login example_config 1704500000000 (Some ''mallory'') (Some ''hunter22'') example_db
     = error_reply 401 ''Invalid credentials.''
   \<and> ''alice'' \<in> u_username ` set (users example_db)
   \<and> ''mallory'' \<notin> u_username ` set (users example_db)"
proof -
  have known: "''alice'' \<in> u_username ` set (users example_db)"
    and unknown: "''mallory'' \<notin> u_username ` set (users example_db)"
    by (simp_all add: example_db_def)
  have wrong: "\<forall>r \<in> set (users example_db). u_username r = ''alice''
      \<longrightarrow> \<not> bcrypt_compare ''hunter22'' (u_password_hash r)"
    by (simp add: example_db_def bcrypt_hash_def)
  have ne: "''alice'' \<noteq> [] \<and> ''hunter22'' \<noteq> [] \<and> ''mallory'' \<noteq> []" by simp
  from login_hides_whether_username_exists [where u = "''alice''" and p = "''hunter22''" and d = example_db
      and u' = "''mallory''" and p' = "''hunter22''" and cfg = example_config
      and now = 1704500000000 and now' = 1704500000000] known unknown wrong ne
  have "login example_config 1704500000000 (Some ''alice'') (Some ''hunter22'') example_db
     = error_reply 401 ''Invalid credentials.''
   \<and> login example_config 1704500000000 (Some ''mallory'') (Some ''hunter22'') example_db
     = error_reply 401 ''Invalid credentials.''"
    by blast
  with known unknown show ?thesis by simp
qed

subsection \<open>Registration\<close>






subsection \<open>Admin gate\<close>

lemma token_is_no_string: "[Tok t] \<noteq> str s \<and> str s \<noteq> [Tok t]"
  by (cases s) (auto simp: str_def)

lemma adminAuth_None:
  "adminAuth cfg req = None \<longleftrightarrow>
     ADMIN_SECRET cfg \<noteq> []
     \<and> (if falsy (x_admin_secret req) then q_admin_secret req else x_admin_secret req)
         = Some (str (ADMIN_SECRET cfg))"
  by (auto simp: adminAuth_def Let_def str_is_empty)


lemma adminAuth_without_secret:
  "x_admin_secret req \<noteq> Some (str (ADMIN_SECRET cfg)) \<Longrightarrow>
   q_admin_secret req \<noteq> Some (str (ADMIN_SECRET cfg)) \<Longrightarrow>
   adminAuth cfg req = Some admin_denied"
  by (auto simp: adminAuth_def Let_def admin_denied_def)

lemma adminAuth_token:
  "x_admin_secret req = Some [Tok t]
     \<or> (x_admin_secret req = None \<and> q_admin_secret req = Some [Tok t]) \<Longrightarrow>
   adminAuth cfg req = Some admin_denied"
  by (auto simp: adminAuth_def Let_def admin_denied_def token_is_no_string)

lemma adminAuth_authorization:
  "adminAuth cfg (req\<lparr>authorization := a\<rparr>) = adminAuth cfg req"
  by (simp add: adminAuth_def)

lemma admin_endpoints_denied:
  "adminAuth cfg req = Some res \<Longrightarrow>
     admin_users cfg req d = res \<and> admin_user cfg req p_id d = res
     \<and> admin_export_users_csv cfg req d = res"
  by (simp add: admin_users_def admin_user_def admin_export_users_csv_def)

lemma admin_endpoints_allowed:
  "adminAuth cfg req = None \<Longrightarrow>
     fst (admin_users cfg req d) = 200 \<and> fst (admin_user cfg req p_id d) \<in> {200, 400, 404}
     \<and> fst (admin_export_users_csv cfg req d) = 200"
  by (auto simp: admin_users_def admin_user_def admin_export_users_csv_def Let_def
      reply_def error_reply_def split: option.splits)

text \<open>
  C9. Each admin endpoint answers 401 \<^verbatim>\<open>{error: 'Admin auth required'}\<close> when neither the
  \<^verbatim>\<open>x-admin-secret\<close> header nor the \<^verbatim>\<open>admin_secret\<close> query parameter is the configured
  secret. A session token presented in either place is refused, and the \<^verbatim>\<open>Authorization\<close>
  header has no influence on the answer. With the secret, no admin endpoint answers 401.
\<close>

theorem admin_endpoints_require_the_secret:
  "(x_admin_secret req \<noteq> Some (str (ADMIN_SECRET cfg))
      \<and> q_admin_secret req \<noteq> Some (str (ADMIN_SECRET cfg)) \<longrightarrow>
       admin_users cfg req d = admin_denied
     \<and> admin_user cfg req p_id d = admin_denied
     \<and> admin_export_users_csv cfg req d = admin_denied)
   \<and> (x_admin_secret req = Some [Tok t]
        \<or> (x_admin_secret req = None \<and> q_admin_secret req = Some [Tok t]) \<longrightarrow>
       admin_users cfg req d = admin_denied
     \<and> admin_user cfg req p_id d = admin_denied
     \<and> admin_export_users_csv cfg req d = admin_denied)
   \<and> admin_users cfg (req\<lparr>authorization := a\<rparr>) d = admin_users cfg req d
   \<and> admin_user cfg (req\<lparr>authorization := a\<rparr>) p_id d = admin_user cfg req p_id d
   \<and> admin_export_users_csv cfg (req\<lparr>authorization := a\<rparr>) d = admin_export_users_csv cfg req d
   \<and> (ADMIN_SECRET cfg \<noteq> []
        \<and> (x_admin_secret req = Some (str (ADMIN_SECRET cfg))
            \<or> (falsy (x_admin_secret req) \<and> q_admin_secret req = Some (str (ADMIN_SECRET cfg))))
      \<longrightarrow> fst (admin_users cfg req d) = 200
        \<and> fst (admin_user cfg req p_id d) \<in> {200, 400, 404}
        \<and> fst (admin_export_users_csv cfg req d) = 200)
   \<and> fst admin_denied = 401"
proof (intro conjI impI)
  assume "x_admin_secret req \<noteq> Some (str (ADMIN_SECRET cfg))
      \<and> q_admin_secret req \<noteq> Some (str (ADMIN_SECRET cfg))"
  then have denied: "adminAuth cfg req = Some admin_denied"
    using adminAuth_without_secret by blast
  show "admin_users cfg req d = admin_denied" "admin_user cfg req p_id d = admin_denied"
    "admin_export_users_csv cfg req d = admin_denied"
    using admin_endpoints_denied [OF denied] by simp_all
next
  assume "x_admin_secret req = Some [Tok t]
        \<or> (x_admin_secret req = None \<and> q_admin_secret req = Some [Tok t])"
  then have denied: "adminAuth cfg req = Some admin_denied"
    by (rule adminAuth_token)
  show "admin_users cfg req d = admin_denied" "admin_user cfg req p_id d = admin_denied"
    "admin_export_users_csv cfg req d = admin_denied"
    using admin_endpoints_denied [OF denied] by simp_all
next
  show "admin_users cfg (req\<lparr>authorization := a\<rparr>) d = admin_users cfg req d"
    by (simp add: admin_users_def adminAuth_authorization split: option.splits)
  show "admin_user cfg (req\<lparr>authorization := a\<rparr>) p_id d = admin_user cfg req p_id d"
    by (simp add: admin_user_def adminAuth_authorization split: option.splits)
  show "admin_export_users_csv cfg (req\<lparr>authorization := a\<rparr>) d
      = admin_export_users_csv cfg req d"
    by (simp add: admin_export_users_csv_def adminAuth_authorization split: option.splits)
  show "fst admin_denied = 401"
    by (simp add: admin_denied_def error_reply_def reply_def)
next
  assume "ADMIN_SECRET cfg \<noteq> []
        \<and> (x_admin_secret req = Some (str (ADMIN_SECRET cfg))
            \<or> (falsy (x_admin_secret req) \<and> q_admin_secret req = Some (str (ADMIN_SECRET cfg))))"
  then have allowed: "adminAuth cfg req = None"
    by (auto simp: adminAuth_None str_is_empty)
  show "fst (admin_users cfg req d) = 200" "fst (admin_user cfg req p_id d) \<in> {200, 400, 404}"
    "fst (admin_export_users_csv cfg req d) = 200"
    using admin_endpoints_allowed [OF allowed] by simp_all
qed

lemma example_admin_secret: "ADMIN_SECRET example_config = ''adm1n''"
  by (simp add: example_config_def load_config_def env_or_def)

theorem admin_endpoints_require_the_secret_witness:
  "admin_users example_config (bearer bob_token) example_db = admin_denied
   \<and> admin_export_users_csv example_config (bearer bob_token) example_db = admin_denied
   \<and> admin_user example_config token_as_secret ''1'' example_db = admin_denied
   \<and> fst (admin_users example_config (admin_request ''adm1n'') example_db) = 200
   \<and> fst (admin_export_users_csv example_config (admin_request ''adm1n'') example_db) = 200
   \<and> fst admin_denied = 401"
proof -
  have "x_admin_secret (bearer bob_token) \<noteq> Some (str (ADMIN_SECRET example_config))
      \<and> q_admin_secret (bearer bob_token) \<noteq> Some (str (ADMIN_SECRET example_config))"
    by (simp add: bearer_def plain_request_def)
  with admin_endpoints_require_the_secret [where req = "bearer bob_token" and cfg = example_config and d = example_db]
  have w1: "admin_users example_config (bearer bob_token) example_db = admin_denied"
    and w2: "admin_export_users_csv example_config (bearer bob_token) example_db = admin_denied"
    by blast+
  have "x_admin_secret token_as_secret = Some [Tok bob_token]"
    by (simp add: token_as_secret_def)
  with admin_endpoints_require_the_secret [where req = token_as_secret and cfg = example_config and d = example_db
      and t = bob_token and p_id = "''1''"]
  have w3: "admin_user example_config token_as_secret ''1'' example_db = admin_denied"
    by blast
  have "ADMIN_SECRET example_config \<noteq> []
      \<and> x_admin_secret (admin_request ''adm1n'') = Some (str (ADMIN_SECRET example_config))"
    by (simp add: example_admin_secret admin_request_def)
  with admin_endpoints_require_the_secret [where req = "admin_request ''adm1n''" and cfg = example_config and d = example_db]
  have w4: "fst (admin_users example_config (admin_request ''adm1n'') example_db) = 200"
    and w5: "fst (admin_export_users_csv example_config (admin_request ''adm1n'') example_db) = 200"
    by blast+
  have w6: "fst admin_denied = 401"
    using admin_endpoints_require_the_secret [where req = plain_request and cfg = example_config and d = example_db] by blast
  from w1 w2 w3 w4 w5 w6 show ?thesis by (intro conjI)
qed

subsection \<open>Password material\<close>

lemma leaks_error [simp]: "\<not> exposes_password (error_reply code msg)"
  by (simp add: error_reply_def reply_def)

lemma leaks_history_json [simp]: "\<not> leaks (history_json h)"
  by (simp add: history_json_def nullable_def split: option.splits)

lemma leaks_leaderboard_json [simp]: "\<not> leaks (leaderboard_json r)"
  by (simp add: leaderboard_json_def)





















lemma public_columns_hash [simp]: "public_columns (u\<lparr>u_password_hash := h\<rparr>) = public_columns u"
  by (simp add: public_columns_def)

lemma csv_line_hash [simp]: "csv_line (u\<lparr>u_password_hash := h\<rparr>) = csv_line u"
  by (simp add: csv_line_def)

lemma with_hashes_simps [simp]:
  "history (with_hashes f d) = history d"
  "users (with_hashes f d) = map (\<lambda>u. u\<lparr>u_password_hash := f u\<rparr>) (users d)"
  by (simp_all add: with_hashes_def)

lemma events_with_hashes [simp]:
  "getUserAggregates (with_hashes f d) u = getUserAggregates d u"
  "select_history (with_hashes f d) u n = select_history d u n"
  by (simp_all add: getUserAggregates_def select_history_def)









end
